theory Spec2Isabelle
  imports Complex_Main "HOL-Library.AList"
begin

section \<open>JavaScript values\<close>

text \<open>
  The handlers of \<^verbatim>\<open>backend.js\<close> work on dynamically typed values: the parsed JSON body
  of a request, the object the vendor client resolves with, the value it rejects with.
  \<open>jsval\<close> is the universe of these values. An object is the list of its own properties
  in insertion order. A number carries its exact value; IEEE rounding, infinities and NaN
  are not represented (the handlers only test numbers for being zero). A string is the
  list of its bytes in UTF-8.
\<close>

datatype jsval =
    JUndefined
  | JNull
  | JBool bool
  | JNum rat
  | JStr string
  | JArr "jsval list"
  | JObj "(string \<times> jsval) list"

text \<open>ToBoolean: what \<^verbatim>\<open>!x\<close>, \<^verbatim>\<open>x || y\<close> and \<^verbatim>\<open>if (x)\<close> test.\<close>

fun truthy :: "jsval \<Rightarrow> bool" where
  "truthy JUndefined = False"
| "truthy JNull = False"
| "truthy (JBool b) = b"
| "truthy (JNum n) = (n \<noteq> 0)"
| "truthy (JStr s) = (s \<noteq> [])"
| "truthy (JArr xs) = True"
| "truthy (JObj ps) = True"

text \<open>\<^verbatim>\<open>a || b\<close>: the left operand when it is truthy, the right one otherwise.\<close>

definition or_else :: "jsval \<Rightarrow> jsval \<Rightarrow> jsval" where
  "or_else a b = (if truthy a then a else b)"

definition nullish :: "jsval \<Rightarrow> bool" where
  "nullish v = (v = JUndefined \<or> v = JNull)"

definition type_name :: "jsval \<Rightarrow> string" where
  "type_name v = (if v = JNull then ''null'' else ''undefined'')"

text \<open>
  An error object raised by the runtime itself. Only its \<^verbatim>\<open>message\<close> is an own property;
  the wording of the messages is V8's and no theorem below depends on it.
\<close>

definition TypeError :: "string \<Rightarrow> jsval" where
  "TypeError m = JObj [(''message'', JStr m)]"

definition SyntaxError :: "string \<Rightarrow> jsval" where
  "SyntaxError m = JObj [(''message'', JStr m)]"

definition quoted :: "string \<Rightarrow> string" where
  "quoted k = [CHR 0x27] @ k @ [CHR 0x27]"

text \<open>
  The value of an own property, \<^verbatim>\<open>undefined\<close> where there is none. The property names the
  handlers read (\<^verbatim>\<open>to\<close>, \<^verbatim>\<open>response\<close>, \<^verbatim>\<open>headers\<close>, ...) are not defined on any
  built-in prototype, so primitives and arrays yield \<^verbatim>\<open>undefined\<close> for them.
\<close>

fun own :: "jsval \<Rightarrow> string \<Rightarrow> jsval" where
  "own (JObj ps) k = (case map_of ps k of None \<Rightarrow> JUndefined | Some v \<Rightarrow> v)"
| "own v k = JUndefined"

text \<open>\<^verbatim>\<open>v.k\<close> and \<^verbatim>\<open>v['k']\<close>: a TypeError is thrown (\<open>Inl\<close>) when \<open>v\<close> is undefined or null.\<close>

definition get :: "jsval \<Rightarrow> string \<Rightarrow> jsval + jsval" where
  "get v k =
     (if nullish v
      then Inl (TypeError (''Cannot read properties of '' @ type_name v @ '' (reading '' @ quoted k @ '')''))
      else Inr (own v k))"

text \<open>
  \<^verbatim>\<open>v[0]\<close>: the first element of an array, the first character of a string (its first
  byte here, which is the character when that is ASCII).
\<close>

fun get0 :: "jsval \<Rightarrow> jsval + jsval" where
  "get0 (JArr xs) = Inr (case xs of [] \<Rightarrow> JUndefined | x # _ \<Rightarrow> x)"
| "get0 (JStr s) = Inr (case s of [] \<Rightarrow> JUndefined | c # _ \<Rightarrow> JStr [c])"
| "get0 v = get v ''0''"

section \<open>Requests, responses and effects\<close>

text \<open>
  \<^verbatim>\<open>process.env\<close>: a variable is a string when it is set and \<^verbatim>\<open>undefined\<close> when it is not.
\<close>

type_synonym env = "string \<rightharpoonup> string"

definition process_env :: "env \<Rightarrow> string \<Rightarrow> jsval" where
  "process_env env k = (case env k of None \<Rightarrow> JUndefined | Some s \<Rightarrow> JStr s)"

text \<open>
  What a handler does to \<^verbatim>\<open>res\<close>: \<^verbatim>\<open>res.status(c).json(v)\<close> or \<^verbatim>\<open>res.status(c).send(s)\<close>,
  recorded with the arguments as the handler passes them.
\<close>

datatype reply = Json jsval | Send string

record response =
  status :: jsval
  reply :: reply

text \<open>
  What a handler does besides answering: the calls of the vendor client and of the console,
  in order. The vendor client is a parameter: given the message, it resolves with a value
  (\<open>Inr\<close>) or rejects with one (\<open>Inl\<close>).
\<close>

datatype effect =
    VendorSend jsval
  | ConsoleLog "jsval list"
  | ConsoleError "jsval list"

type_synonym vendor = "jsval \<Rightarrow> jsval + jsval"

text \<open>
  The outcome of a handler: the response it sent (\<open>Inr\<close>), or the exception that escaped
  it (\<open>Inl\<close>), and its effects.
\<close>

type_synonym outcome = "(jsval + response) \<times> effect list"

fun vendor_sends :: "effect list \<Rightarrow> jsval list" where
  "vendor_sends [] = []"
| "vendor_sends (VendorSend m # fx) = m # vendor_sends fx"
| "vendor_sends (_ # fx) = vendor_sends fx"

section \<open>POST /api/send-email\<close>

text \<open>
  \<^verbatim>\<open>const { to, subject, text, html, fromEmail, fromName } = req.body;\<close>
  Destructuring throws a TypeError when \<^verbatim>\<open>req.body\<close> is undefined or null.
\<close>

record fields =
  f_to :: jsval
  f_subject :: jsval
  f_text :: jsval
  f_html :: jsval
  f_fromEmail :: jsval
  f_fromName :: jsval

definition destructure :: "jsval \<Rightarrow> jsval + fields" where
  "destructure body =
     (if nullish body
      then Inl (TypeError (''Cannot destructure property '' @ quoted ''to'' @ '' of '' @ quoted ''req.body''
                           @ '' as it is '' @ type_name body @ ''.''))
      else Inr \<lparr> f_to = own body ''to'', f_subject = own body ''subject'', f_text = own body ''text'',
                 f_html = own body ''html'', f_fromEmail = own body ''fromEmail'',
                 f_fromName = own body ''fromName'' \<rparr>)"

text \<open>\<^verbatim>\<open>!to || !subject || (!text && !html)\<close>\<close>

definition missing_fields :: "fields \<Rightarrow> bool" where
  "missing_fields f =
     (\<not> truthy (f_to f) \<or> \<not> truthy (f_subject f) \<or> (\<not> truthy (f_text f) \<and> \<not> truthy (f_html f)))"

definition missing_fields_message :: string where
  "missing_fields_message = ''Missing required fields: to, subject, and text/html''"

definition default_from_email :: string where
  "default_from_email = ''anya.sunglassretailer@gmail.com''"

definition default_from_name :: string where
  "default_from_name = ''Anya Ganger''"

text \<open>The object literal \<^verbatim>\<open>msg\<close>.\<close>

definition build_msg :: "env \<Rightarrow> fields \<Rightarrow> jsval" where
  "build_msg env f =
     JObj [(''to'', f_to f),
           (''from'', JObj
              [(''email'', or_else (or_else (f_fromEmail f) (process_env env ''FROM_EMAIL''))
                                   (JStr default_from_email)),
               (''name'', or_else (or_else (f_fromName f) (process_env env ''FROM_NAME''))
                                  (JStr default_from_name))]),
           (''subject'', f_subject f),
           (''text'', f_text f),
           (''html'', or_else (f_html f) (f_text f)),
           (''trackingSettings'', JObj
              [(''clickTracking'', JObj [(''enable'', JBool True)]),
               (''openTracking'', JObj [(''enable'', JBool True)])])]"

text \<open>\<^verbatim>\<open>response[0].headers['x-message-id']\<close>\<close>

definition message_id :: "jsval \<Rightarrow> jsval + jsval" where
  "message_id response =
     (case get0 response of
        Inl e \<Rightarrow> Inl e
      | Inr r0 \<Rightarrow>
          (case get r0 ''headers'' of
             Inl e \<Rightarrow> Inl e
           | Inr h \<Rightarrow> get h ''x-message-id''))"

text \<open>
  The body of \<^verbatim>\<open>try\<close>. The message identifier is read twice by the source, for the log
  line and for the response; reading has no effect, so the model reads it once.
\<close>

definition try_block :: "env \<Rightarrow> vendor \<Rightarrow> jsval \<Rightarrow> outcome" where
  "try_block env sgMail_send body =
     (case destructure body of
        Inl e \<Rightarrow> (Inl e, [])
      | Inr f \<Rightarrow>
          if missing_fields f
          then (Inr \<lparr> status = JNum 400,
                      reply = Json (JObj [(''error'', JStr missing_fields_message)]) \<rparr>, [])
          else
            (let msg = build_msg env f in
             case sgMail_send msg of
               Inl e \<Rightarrow> (Inl e, [VendorSend msg])
             | Inr response \<Rightarrow>
                 (case message_id response of
                    Inl e \<Rightarrow> (Inl e, [VendorSend msg])
                  | Inr mid \<Rightarrow>
                      (Inr \<lparr> status = JNum 200,
                             reply = Json (JObj [(''success'', JBool True),
                                                 (''messageId'', mid),
                                                 (''message'', JStr ''Email sent successfully'')]) \<rparr>,
                       [VendorSend msg,
                        ConsoleLog [JStr ''Email sent successfully:'',
                                    JObj [(''to'', f_to f), (''subject'', f_subject f),
                                          (''messageId'', mid)]]]))))"

text \<open>
  The body of \<^verbatim>\<open>catch (error)\<close>, entered with the effects so far. An exception thrown
  here escapes the handler. Once \<^verbatim>\<open>error.response\<close> has been read, \<^verbatim>\<open>error\<close> is neither
  undefined nor null, so \<^verbatim>\<open>error.code\<close> and \<^verbatim>\<open>error.message\<close> are plain reads.
\<close>

definition catch_block :: "jsval \<Rightarrow> effect list \<Rightarrow> outcome" where
  "catch_block error fx =
     (let fx' = fx @ [ConsoleError [JStr ''SendGrid error:'', error]] in
      case get error ''response'' of
        Inl e \<Rightarrow> (Inl e, fx')
      | Inr r \<Rightarrow>
          if truthy r
          then
            (case get r ''body'' of
               Inl e \<Rightarrow> (Inl e, fx')
             | Inr b \<Rightarrow>
                 (case get b ''errors'' of
                    Inl e \<Rightarrow> (Inl e, fx')
                  | Inr errs \<Rightarrow>
                      (Inr \<lparr> status = or_else (own error ''code'') (JNum 500),
                             reply = Json (JObj [(''error'', JStr ''SendGrid API error''),
                                                 (''details'', or_else errs (own error ''message''))]) \<rparr>,
                       fx')))
          else
            (Inr \<lparr> status = JNum 500,
                   reply = Json (JObj [(''error'', JStr ''Server error''),
                                       (''details'', own error ''message'')]) \<rparr>,
             fx'))"

definition send_email :: "env \<Rightarrow> vendor \<Rightarrow> jsval \<Rightarrow> outcome" where
  "send_email env sgMail_send body =
     (case try_block env sgMail_send body of
        (Inl error, fx) \<Rightarrow> catch_block error fx
      | (Inr res, fx) \<Rightarrow> (Inr res, fx))"

section \<open>GET /api/health\<close>

definition health :: "'req \<Rightarrow> outcome" where
  "health req =
     (Inr \<lparr> status = JNum 200,
            reply = Json (JObj [(''status'', JStr ''OK''), (''message'', JStr ''Backend is running'')]) \<rparr>,
      [])"

section \<open>JSON.parse\<close>

text \<open>
  \<^verbatim>\<open>JSON.parse\<close> is a built-in of the language; the webhook handler applies it to the text
  \<^verbatim>\<open>req.body.toString()\<close>. It is modelled after the JSON grammar of ECMA-262: the text is cut
  into tokens, and the tokens are read by a pushdown automaton that builds the value.
  Insignificant white space is space, tab, line feed and carriage return.
\<close>

datatype token =
    TLBrace | TRBrace | TLBracket | TRBracket | TColon | TComma
  | TString string | TNumber rat | TTrue | TFalse | TNull

definition is_ws :: "char \<Rightarrow> bool" where
  "is_ws c = (c = CHR '' '' \<or> c = CHR 0x09 \<or> c = CHR 0x0A \<or> c = CHR 0x0D)"

definition is_digit :: "char \<Rightarrow> bool" where
  "is_digit c = (48 \<le> (of_char c :: nat) \<and> (of_char c :: nat) \<le> 57)"

definition digit_value :: "char \<Rightarrow> int" where
  "digit_value c = of_char c - 48"

definition digits_value :: "string \<Rightarrow> int" where
  "digits_value ds = foldl (\<lambda>n d. 10 * n + digit_value d) 0 ds"

definition is_hex :: "char \<Rightarrow> bool" where
  "is_hex c = (is_digit c \<or> (65 \<le> (of_char c :: nat) \<and> (of_char c :: nat) \<le> 70)
                \<or> (97 \<le> (of_char c :: nat) \<and> (of_char c :: nat) \<le> 102))"

definition hex_value :: "char \<Rightarrow> int" where
  "hex_value c =
     (if is_digit c then of_char c - 48
      else if (of_char c :: nat) \<le> 70 then of_char c - 55
      else of_char c - 87)"

definition hex4 :: "char \<Rightarrow> char \<Rightarrow> char \<Rightarrow> char \<Rightarrow> int" where
  "hex4 a b c d = ((hex_value a * 16 + hex_value b) * 16 + hex_value c) * 16 + hex_value d"

text \<open>The bytes of a code point in UTF-8 (a lone surrogate is encoded like any other).\<close>

definition utf8 :: "int \<Rightarrow> string" where
  "utf8 cp =
     (if cp < 128 then [char_of cp]
      else if cp < 2048 then [char_of (192 + cp div 64), char_of (128 + cp mod 64)]
      else if cp < 65536 then
        [char_of (224 + cp div 4096), char_of (128 + cp div 64 mod 64), char_of (128 + cp mod 64)]
      else
        [char_of (240 + cp div 262144), char_of (128 + cp div 4096 mod 64),
         char_of (128 + cp div 64 mod 64), char_of (128 + cp mod 64)])"

text \<open>The character a one-letter escape stands for.\<close>

definition simple_escape :: "char \<Rightarrow> char option" where
  "simple_escape e =
     (if e = CHR 0x22 then Some (CHR 0x22)
      else if e = CHR 0x5C then Some (CHR 0x5C)
      else if e = CHR ''/'' then Some (CHR ''/'')
      else if e = CHR ''b'' then Some (CHR 0x08)
      else if e = CHR ''f'' then Some (CHR 0x0C)
      else if e = CHR ''n'' then Some (CHR 0x0A)
      else if e = CHR ''r'' then Some (CHR 0x0D)
      else if e = CHR ''t'' then Some (CHR 0x09)
      else None)"

text \<open>
  Where the string that starts after an opening quote ends: the index of the closing quote.
  A backslash takes the character after it along.
\<close>

fun string_end :: "string \<Rightarrow> nat option" where
  "string_end [] = None"
| "string_end [c] = (if c = CHR 0x22 then Some 0 else None)"
| "string_end (c # d # cs) =
     (if c = CHR 0x22 then Some 0
      else if c = CHR 0x5C then map_option (\<lambda>n. n + 2) (string_end cs)
      else map_option Suc (string_end (d # cs)))"

text \<open>
  The characters between the quotes, with the escapes replaced. A control character
  (below U+0020) and an unknown escape are errors. \<^verbatim>\<open>\uXXXX\<close> gives a UTF-16 code unit;
  a high surrogate followed by an escaped low surrogate gives one code point.
\<close>

fun unescape :: "string \<Rightarrow> string option" where
  "unescape [] = Some []"
| "unescape (c # cs) =
     (if c = CHR 0x5C then
        (case cs of
           [] \<Rightarrow> None
         | e # es \<Rightarrow>
             if e = CHR ''u'' then
               (case es of
                  a # b # c # d # rest \<Rightarrow>
                    if is_hex a \<and> is_hex b \<and> is_hex c \<and> is_hex d then
                      (let hi = hex4 a b c d in
                       case rest of
                         s # u # a' # b' # c' # d' # rest' \<Rightarrow>
                           if 55296 \<le> hi \<and> hi < 56320 \<and> s = CHR 0x5C \<and> u = CHR ''u''
                              \<and> is_hex a' \<and> is_hex b' \<and> is_hex c' \<and> is_hex d'
                              \<and> 56320 \<le> hex4 a' b' c' d' \<and> hex4 a' b' c' d' < 57344
                           then map_option
                                  (\<lambda>r. utf8 (65536 + (hi - 55296) * 1024 + (hex4 a' b' c' d' - 56320)) @ r)
                                  (unescape rest')
                           else map_option (\<lambda>r. utf8 hi @ r) (unescape rest)
                       | _ \<Rightarrow> map_option (\<lambda>r. utf8 hi @ r) (unescape rest))
                    else None
                | _ \<Rightarrow> None)
             else
               (case simple_escape e of
                  None \<Rightarrow> None
                | Some x \<Rightarrow> map_option (\<lambda>r. x # r) (unescape es)))
      else if (of_char c :: nat) < 32 then None
      else map_option (\<lambda>r. c # r) (unescape cs))"

text \<open>
  A number: an optional minus, an integer part without a leading zero, an optional
  fraction, an optional exponent; its value is exact.
\<close>

definition is_number_char :: "char \<Rightarrow> bool" where
  "is_number_char c =
     (is_digit c \<or> c = CHR ''-'' \<or> c = CHR ''+'' \<or> c = CHR ''.'' \<or> c = CHR ''e'' \<or> c = CHR ''E'')"

definition exponent_of :: "string \<Rightarrow> int option" where
  "exponent_of s =
     (case s of
        [] \<Rightarrow> Some 0
      | e # r \<Rightarrow>
          if e = CHR ''e'' \<or> e = CHR ''E'' then
            (case r of
               [] \<Rightarrow> None
             | g # ds \<Rightarrow>
                 if g = CHR ''-'' then
                   (if ds \<noteq> [] \<and> list_all is_digit ds then Some (- digits_value ds) else None)
                 else if g = CHR ''+'' then
                   (if ds \<noteq> [] \<and> list_all is_digit ds then Some (digits_value ds) else None)
                 else
                   (if list_all is_digit r then Some (digits_value r) else None))
          else None)"

definition unsigned_value :: "string \<Rightarrow> rat option" where
  "unsigned_value s =
     (let ip = takeWhile is_digit s; r1 = dropWhile is_digit s in
      if ip = [] \<or> (length ip > 1 \<and> hd ip = CHR ''0'') then None
      else
        (let fp = (case r1 of [] \<Rightarrow> [] | p # r \<Rightarrow> if p = CHR ''.'' then takeWhile is_digit r else []);
             r2 = (case r1 of [] \<Rightarrow> [] | p # r \<Rightarrow> if p = CHR ''.'' then dropWhile is_digit r else r1)
         in
         if (case r1 of [] \<Rightarrow> False | p # r \<Rightarrow> p = CHR ''.'' \<and> fp = []) then None
         else
           (case exponent_of r2 of
              None \<Rightarrow> None
            | Some x \<Rightarrow>
                Some (of_int (digits_value (ip @ fp)) / 10 ^ length fp
                      * (if x < 0 then 1 / 10 ^ nat (- x) else 10 ^ nat x)))))"

definition number_value :: "string \<Rightarrow> rat option" where
  "number_value s =
     (case s of
        [] \<Rightarrow> None
      | c # cs \<Rightarrow>
          if c = CHR ''-'' then map_option uminus (unsigned_value cs) else unsigned_value s)"

text \<open>
  The token that starts with the character \<open>c\<close> followed by \<open>cs\<close> (none for white
  space), and how many characters of \<open>cs\<close> belong to it.
\<close>

definition next_token :: "char \<Rightarrow> string \<Rightarrow> (token option \<times> nat) option" where
  "next_token c cs =
     (if is_ws c then Some (None, 0)
      else if c = CHR ''{'' then Some (Some TLBrace, 0)
      else if c = CHR ''}'' then Some (Some TRBrace, 0)
      else if c = CHR ''['' then Some (Some TLBracket, 0)
      else if c = CHR '']'' then Some (Some TRBracket, 0)
      else if c = CHR '':'' then Some (Some TColon, 0)
      else if c = CHR '','' then Some (Some TComma, 0)
      else if c = CHR 0x22 then
        (case string_end cs of
           None \<Rightarrow> None
         | Some n \<Rightarrow>
             (case unescape (take n cs) of
                None \<Rightarrow> None
              | Some s \<Rightarrow> Some (Some (TString s), Suc n)))
      else if c = CHR ''-'' \<or> is_digit c then
        (let n = length (takeWhile is_number_char cs) in
         case number_value (c # take n cs) of
           None \<Rightarrow> None
         | Some q \<Rightarrow> Some (Some (TNumber q), n))
      else if c = CHR ''t'' \<and> take 3 cs = ''rue'' then Some (Some TTrue, 3)
      else if c = CHR ''f'' \<and> take 4 cs = ''alse'' then Some (Some TFalse, 4)
      else if c = CHR ''n'' \<and> take 3 cs = ''ull'' then Some (Some TNull, 3)
      else None)"

fun lex :: "string \<Rightarrow> token list option" where
  "lex [] = Some []"
| "lex (c # cs) =
     (case next_token c cs of
        None \<Rightarrow> None
      | Some (t, n) \<Rightarrow>
          map_option (\<lambda>ts. case t of None \<Rightarrow> ts | Some x \<Rightarrow> x # ts) (lex (drop n cs)))"

text \<open>
  The automaton. A frame of the stack is an array or an object under construction (with the
  key whose value is being read); the mode says what may come next. A repeated key keeps
  its place and takes the later value.
\<close>

datatype frame = InArr "jsval list" | InObj "(string \<times> jsval) list" string

datatype mode = Val | ValOrClose | KeyOrClose | Key | Colon | More | Done jsval

fun complete :: "jsval \<Rightarrow> frame list \<Rightarrow> mode \<times> frame list" where
  "complete v [] = (Done v, [])"
| "complete v (InArr xs # st) = (More, InArr (xs @ [v]) # st)"
| "complete v (InObj ps k # st) = (More, InObj (AList.update k v ps) k # st)"

fun start_value :: "token \<Rightarrow> frame list \<Rightarrow> (mode \<times> frame list) option" where
  "start_value (TString s) st = Some (complete (JStr s) st)"
| "start_value (TNumber q) st = Some (complete (JNum q) st)"
| "start_value TTrue st = Some (complete (JBool True) st)"
| "start_value TFalse st = Some (complete (JBool False) st)"
| "start_value TNull st = Some (complete JNull st)"
| "start_value TLBracket st = Some (ValOrClose, InArr [] # st)"
| "start_value TLBrace st = Some (KeyOrClose, InObj [] [] # st)"
| "start_value t st = None"

fun close_array :: "frame list \<Rightarrow> (mode \<times> frame list) option" where
  "close_array (InArr xs # st) = Some (complete (JArr xs) st)"
| "close_array st = None"

fun close_object :: "frame list \<Rightarrow> (mode \<times> frame list) option" where
  "close_object (InObj ps k # st) = Some (complete (JObj ps) st)"
| "close_object st = None"

fun set_key :: "token \<Rightarrow> frame list \<Rightarrow> (mode \<times> frame list) option" where
  "set_key (TString k) (InObj ps k' # st) = Some (Colon, InObj ps k # st)"
| "set_key t st = None"

fun step :: "mode \<Rightarrow> frame list \<Rightarrow> token \<Rightarrow> (mode \<times> frame list) option" where
  "step Val st t = start_value t st"
| "step ValOrClose st t = (if t = TRBracket then close_array st else start_value t st)"
| "step KeyOrClose st t = (if t = TRBrace then close_object st else set_key t st)"
| "step Key st t = set_key t st"
| "step Colon st t = (if t = TColon then Some (Val, st) else None)"
| "step More (InArr xs # st) t =
     (if t = TComma then Some (Val, InArr xs # st)
      else if t = TRBracket then close_array (InArr xs # st)
      else None)"
| "step More (InObj ps k # st) t =
     (if t = TComma then Some (Key, InObj ps k # st)
      else if t = TRBrace then close_object (InObj ps k # st)
      else None)"
| "step More [] t = None"
| "step (Done v) st t = None"

fun parse :: "mode \<Rightarrow> frame list \<Rightarrow> token list \<Rightarrow> jsval option" where
  "parse m st [] = (case m of Done v \<Rightarrow> Some v | _ \<Rightarrow> None)"
| "parse m st (t # ts) =
     (case step m st t of
        None \<Rightarrow> None
      | Some (m', st') \<Rightarrow> parse m' st' ts)"

text \<open>
  A text that is not JSON makes \<^verbatim>\<open>JSON.parse\<close> throw a SyntaxError. V8 words the message
  after the offending token; the model has one message for all.
\<close>

definition JSON_parse :: "string \<Rightarrow> jsval + jsval" where
  "JSON_parse s =
     (case lex s of
        None \<Rightarrow> Inl (SyntaxError ''Unexpected token in JSON'')
      | Some ts \<Rightarrow>
          (case parse Val [] ts of
             None \<Rightarrow> Inl (SyntaxError ''Unexpected token in JSON'')
           | Some v \<Rightarrow> Inr v))"

section \<open>POST /api/sendgrid-webhook\<close>

text \<open>
  The first statement of the callback of \<^verbatim>\<open>forEach\<close>: the log line of an event. Reading
  \<^verbatim>\<open>event.email\<close> throws when the event is null.
\<close>

definition log_event :: "jsval \<Rightarrow> jsval + effect" where
  "log_event event =
     (case get event ''email'' of
        Inl e \<Rightarrow> Inl e
      | Inr email \<Rightarrow>
          Inr (ConsoleLog [JStr ''SendGrid Event:'',
                           JObj [(''email'', email),
                                 (''event'', own event ''event''),
                                 (''timestamp'', own event ''timestamp''),
                                 (''messageId'', own event ''sg_message_id'')]]))"

text \<open>
  \<^verbatim>\<open>switch(event.event)\<close>: the cases compare with \<^verbatim>\<open>===\<close>, and every branch is empty.
\<close>

definition dispatch :: "jsval \<Rightarrow> effect list" where
  "dispatch kind =
     (if kind = JStr ''delivered'' then []
      else if kind = JStr ''open'' then []
      else if kind = JStr ''click'' then []
      else if kind = JStr ''bounce'' \<or> kind = JStr ''dropped'' then []
      else [])"

text \<open>
  \<^verbatim>\<open>events.forEach(event => ...)\<close> over the elements of an array, after the effects
  \<open>fx\<close>: it stops at the first event whose callback throws.
\<close>

fun forEach_event :: "jsval list \<Rightarrow> effect list \<Rightarrow> jsval option \<times> effect list" where
  "forEach_event [] fx = (None, fx)"
| "forEach_event (event # events) fx =
     (case log_event event of
        Inl e \<Rightarrow> (Some e, fx)
      | Inr l \<Rightarrow> forEach_event events (fx @ [l] @ dispatch (own event ''event'')))"

text \<open>
  What the handler does with the text \<^verbatim>\<open>req.body.toString()\<close>: \<^verbatim>\<open>JSON.parse\<close>, the
  loop over the events, the acknowledgement. Nothing in the handler catches an exception.
  Only an array has \<^verbatim>\<open>forEach\<close>.
\<close>

definition webhook_text :: "string \<Rightarrow> outcome" where
  "webhook_text body_text =
     (case JSON_parse body_text of
        Inl e \<Rightarrow> (Inl e, [])
      | Inr events \<Rightarrow>
          (case events of
             JArr evs \<Rightarrow>
               (case forEach_event evs [] of
                  (Some e, fx) \<Rightarrow> (Inl e, fx)
                | (None, fx) \<Rightarrow> (Inr \<lparr> status = JNum 200, reply = Send ''OK'' \<rparr>, fx))
           | _ \<Rightarrow>
               (case get events ''forEach'' of
                  Inl e \<Rightarrow> (Inl e, [])
                | Inr f \<Rightarrow> (Inl (TypeError ''events.forEach is not a function''), []))))"

text \<open>
  What \<^verbatim>\<open>req.body\<close> holds when the handler runs. The route names \<^verbatim>\<open>express.raw\<close>, which
  would leave the bytes of the request in a Buffer. But \<^verbatim>\<open>app.use(express.json())\<close> is
  mounted before every route: a request with a JSON content type has its body parsed
  there, \<^verbatim>\<open>express.raw\<close> then finds the body already read and leaves it, and the handler
  sees the parsed value. A request the JSON parser does not read reaches the handler with
  \<^verbatim>\<open>req.body\<close> an empty object or \<^verbatim>\<open>undefined\<close>, depending on the version of express.
\<close>

datatype req_body = Buffer string | Parsed jsval

text \<open>
  The conversion of a value to a string, as \<^verbatim>\<open>Array.prototype.join\<close> applies it to an
  element, and \<^verbatim>\<open>Array.prototype.toString\<close>, which joins the elements with commas
  (null and undefined elements give the empty string). An object without a
  \<^verbatim>\<open>toString\<close> of its own gives \<^verbatim>\<open>[object Object]\<close>; one with such a property, which
  in parsed JSON is never a function, cannot be converted. The text of a number is that of
  \<^verbatim>\<open>Number.prototype.toString\<close>, a built-in that is taken as the parameter \<open>num_text\<close>.
\<close>

fun to_text :: "(rat \<Rightarrow> string) \<Rightarrow> jsval \<Rightarrow> jsval + string"
  and join_text :: "(rat \<Rightarrow> string) \<Rightarrow> jsval list \<Rightarrow> jsval + string" where
  "to_text num_text JUndefined = Inr ''undefined''"
| "to_text num_text JNull = Inr ''null''"
| "to_text num_text (JBool b) = Inr (if b then ''true'' else ''false'')"
| "to_text num_text (JNum q) = Inr (num_text q)"
| "to_text num_text (JStr s) = Inr s"
| "to_text num_text (JArr xs) = join_text num_text xs"
| "to_text num_text (JObj ps) =
     (if map_of ps ''toString'' = None then Inr ''[object Object]''
      else Inl (TypeError ''Cannot convert object to primitive value''))"
| "join_text num_text [] = Inr []"
| "join_text num_text [x] = (if nullish x then Inr [] else to_text num_text x)"
| "join_text num_text (x # y # ys) =
     (case (if nullish x then Inr [] else to_text num_text x) of
        Inl e \<Rightarrow> Inl e
      | Inr s \<Rightarrow>
          (case join_text num_text (y # ys) of
             Inl e \<Rightarrow> Inl e
           | Inr t \<Rightarrow> Inr (s @ '','' @ t)))"

text \<open>
  \<^verbatim>\<open>req.body.toString()\<close>: the text of a Buffer; for a parsed value the method that the
  value inherits. Reading the method of undefined or null throws, and so does calling an
  own property \<^verbatim>\<open>toString\<close> of a parsed object.
\<close>

definition body_toString :: "(rat \<Rightarrow> string) \<Rightarrow> req_body \<Rightarrow> jsval + string" where
  "body_toString num_text body =
     (case body of
        Buffer bytes \<Rightarrow> Inr bytes
      | Parsed v \<Rightarrow>
          (case get v ''toString'' of
             Inl e \<Rightarrow> Inl e
           | Inr m \<Rightarrow>
               if m \<noteq> JUndefined then Inl (TypeError ''req.body.toString is not a function'')
               else to_text num_text v))"

text \<open>The handler.\<close>

definition webhook :: "(rat \<Rightarrow> string) \<Rightarrow> req_body \<Rightarrow> outcome" where
  "webhook num_text body =
     (case body_toString num_text body of
        Inl e \<Rightarrow> (Inl e, [])
      | Inr body_text \<Rightarrow> webhook_text body_text)"

section \<open>The rate limit of the send-email route\<close>

text \<open>
  The options the source passes to \<^verbatim>\<open>rateLimit\<close>: the length of a window in
  milliseconds, the maximum of requests in a window (\<^verbatim>\<open>max\<close>), and the message of a
  rejection.
\<close>

definition windowMs :: nat where
  "windowMs = 15 * 60 * 1000"

definition max_requests :: nat where
  "max_requests = 100"

definition rate_limit_message :: string where
  "rate_limit_message = ''Too many email requests, please try again later.''"

text \<open>
  Modelled from the spec: the store of the limiter. The limiter is the package
  express-rate-limit, which is not under src/; the spec says that the route is throttled to
  100 requests per source per 15-minute window. The store keeps for a source the number of
  its requests in its current window and the time that window ends.
\<close>

type_synonym hits = "string \<rightharpoonup> nat \<times> nat"

text \<open>
  Modelled from the spec: counting a request of the source \<open>src\<close> at the time \<open>now\<close>
  (the store of express-rate-limit is not under src/). A window opens with the first
  request of a source, and with its first request after its last window has ended.
\<close>

definition increment :: "hits \<Rightarrow> string \<Rightarrow> nat \<Rightarrow> hits" where
  "increment store src now =
     (case store src of
        None \<Rightarrow> store(src \<mapsto> (1, now + windowMs))
      | Some (n, reset) \<Rightarrow>
          if now < reset then store(src \<mapsto> (Suc n, reset))
          else store(src \<mapsto> (1, now + windowMs)))"

text \<open>
  Modelled from the spec: the number of requests of a source in its current window (the
  store of express-rate-limit is not under src/).
\<close>

definition hit_count :: "hits \<Rightarrow> string \<Rightarrow> nat" where
  "hit_count store src = (case store src of None \<Rightarrow> 0 | Some (n, reset) \<Rightarrow> n)"

text \<open>
  Modelled from the spec: the middleware \<^verbatim>\<open>emailRateLimit\<close> that \<^verbatim>\<open>rateLimit\<close> returns
  (express-rate-limit is not under src/). It counts the request and either rejects it with
  the message (the spec: a rate-limited request gets the message as plain text) or passes
  it on (\<open>None\<close>).
\<close>

definition emailRateLimit :: "hits \<Rightarrow> string \<Rightarrow> nat \<Rightarrow> hits \<times> string option" where
  "emailRateLimit store src now =
     (let store' = increment store src now in
      (store', if hit_count store' src > max_requests then Some rate_limit_message else None))"

text \<open>A request to the route: the address it comes from, when it arrives (ms), and its body.\<close>

record request =
  source :: string
  arrival :: nat
  req_body :: jsval

text \<open>What a request to the route gets: the rejection of the limiter, or the handler's outcome.\<close>

datatype served = Limited string | Handled outcome

text \<open>
  The route \<^verbatim>\<open>/api/send-email\<close>: \<^verbatim>\<open>app.use\<close> mounts the limiter in front of the handler
  that \<^verbatim>\<open>app.post\<close> registers. A request the limiter rejects does not reach the handler.
\<close>

definition send_email_route :: "env \<Rightarrow> vendor \<Rightarrow> hits \<Rightarrow> request \<Rightarrow> hits \<times> served" where
  "send_email_route env sgMail_send store rq =
     (case emailRateLimit store (source rq) (arrival rq) of
        (store', Some m) \<Rightarrow> (store', Limited m)
      | (store', None) \<Rightarrow> (store', Handled (send_email env sgMail_send (req_body rq))))"

text \<open>A sequence of requests to the route, served in order.\<close>

fun serve :: "env \<Rightarrow> vendor \<Rightarrow> hits \<Rightarrow> request list \<Rightarrow> served list" where
  "serve env sgMail_send store [] = []"
| "serve env sgMail_send store (rq # rqs) =
     (case send_email_route env sgMail_send store rq of
        (store', r) \<Rightarrow> r # serve env sgMail_send store' rqs)"

section \<open>Properties of the send-email handler\<close>

lemma try_block_missing:
  assumes "destructure body = Inr f" and "missing_fields f"
  shows "try_block env sgMail_send body =
           (Inr \<lparr> status = JNum 400,
                  reply = Json (JObj [(''error'', JStr missing_fields_message)]) \<rparr>, [])"
  using assms by (simp add: try_block_def)

lemma send_email_missing:
  assumes "destructure body = Inr f" and "missing_fields f"
  shows "send_email env sgMail_send body =
           (Inr \<lparr> status = JNum 400,
                  reply = Json (JObj [(''error'', JStr missing_fields_message)]) \<rparr>, [])"
  by (simp add: send_email_def try_block_missing [OF assms])

lemma destructure_fields:
  assumes "\<not> nullish body"
  shows "destructure body =
     Inr \<lparr> f_to = own body ''to'', f_subject = own body ''subject'',
           f_text = own body ''text'', f_html = own body ''html'',
           f_fromEmail = own body ''fromEmail'', f_fromName = own body ''fromName'' \<rparr>"
  using assms by (simp add: destructure_def)

lemma snd_catch_block:
  "snd (catch_block error fx) = fx @ [ConsoleError [JStr ''SendGrid error:'', error]]"
  by (simp add: catch_block_def Let_def split: sum.splits)

lemma vendor_sends_append: "vendor_sends (fx @ gx) = vendor_sends fx @ vendor_sends gx"
  by (induction fx rule: vendor_sends.induct) simp_all

lemma vendor_sends_send_email:
  "vendor_sends (snd (send_email env sgMail_send body)) =
   vendor_sends (snd (try_block env sgMail_send body))"
  by (simp add: send_email_def snd_catch_block vendor_sends_append split: prod.splits sum.splits)

lemma vendor_sends_try_block:
  assumes "destructure body = Inr f" and "\<not> missing_fields f"
  shows "vendor_sends (snd (try_block env sgMail_send body)) = [build_msg env f]"
  using assms by (simp add: try_block_def Let_def split: sum.splits)

lemma send_email_vendor_throws:
  assumes "destructure body = Inr f" and "\<not> missing_fields f"
    and "sgMail_send (build_msg env f) = Inl error"
  shows "send_email env sgMail_send body = catch_block error [VendorSend (build_msg env f)]"
  using assms by (simp add: send_email_def try_block_def Let_def)

lemma own_not_nullish: "own v k \<noteq> JUndefined \<Longrightarrow> \<not> nullish v"
  by (cases v) (simp_all add: nullish_def)

lemma own_truthy: "own v k \<noteq> JUndefined \<Longrightarrow> truthy v"
  by (cases v) simp_all

lemma truthy_not_nullish: "truthy v \<Longrightarrow> \<not> nullish v"
  by (cases v) (simp_all add: nullish_def)




text \<open>
  C10. The validation tests truthiness, not presence: a request in which \<^verbatim>\<open>to\<close> or
  \<^verbatim>\<open>subject\<close> is the empty string, or both \<^verbatim>\<open>text\<close> and \<^verbatim>\<open>html\<close> are empty strings,
  is answered with status 400 and the missing-fields message although the properties are
  present in the body.
\<close>

theorem send_email_empty_string_400:
  assumes "map_of ps ''to'' = Some (JStr []) \<or> map_of ps ''subject'' = Some (JStr [])
           \<or> (map_of ps ''text'' = Some (JStr []) \<and> map_of ps ''html'' = Some (JStr []))"
  shows "fst (send_email env sgMail_send (JObj ps)) =
           Inr \<lparr> status = JNum 400,
                 reply = Json (JObj [(''error'',
                   JStr ''Missing required fields: to, subject, and text/html'')]) \<rparr>"
proof -
  let ?f = "\<lparr> f_to = own (JObj ps) ''to'', f_subject = own (JObj ps) ''subject'',
              f_text = own (JObj ps) ''text'', f_html = own (JObj ps) ''html'',
              f_fromEmail = own (JObj ps) ''fromEmail'', f_fromName = own (JObj ps) ''fromName'' \<rparr>"
  have d: "destructure (JObj ps) = Inr ?f"
    by (rule destructure_fields) (simp add: nullish_def)
  from assms have "missing_fields ?f"
    by (auto simp: missing_fields_def)
  with d show ?thesis
    by (simp add: send_email_missing missing_fields_message_def)
qed

theorem send_email_empty_string_400_witness:
  "fst (send_email Map.empty (\<lambda>m. Inr JNull)
          (JObj [(''to'', JStr ''a@b.c''), (''subject'', JStr []), (''text'', JStr ''hello'')])) =
     Inr \<lparr> status = JNum 400,
           reply = Json (JObj [(''error'',
             JStr ''Missing required fields: to, subject, and text/html'')]) \<rparr>"
  by (rule send_email_empty_string_400) simp

text \<open>
  C9. A request that fails the field validation is answered with status 400 and causes no
  call of the vendor client.
\<close>

theorem send_email_rejected_no_vendor_call:
  assumes "destructure body = Inr f" and "missing_fields f"
  shows "fst (send_email env sgMail_send body) =
           Inr \<lparr> status = JNum 400,
                 reply = Json (JObj [(''error'', JStr missing_fields_message)]) \<rparr>
         \<and> vendor_sends (snd (send_email env sgMail_send body)) = []"
  by (simp add: send_email_missing [OF assms])

theorem send_email_rejected_no_vendor_call_witness:
  "fst (send_email Map.empty (\<lambda>m. Inr JNull) (JObj [(''to'', JStr ''a@b.c''), (''text'', JStr ''hello'')])) =
     Inr \<lparr> status = JNum 400,
           reply = Json (JObj [(''error'', JStr missing_fields_message)]) \<rparr>
   \<and> vendor_sends (snd (send_email Map.empty (\<lambda>m. Inr JNull)
                          (JObj [(''to'', JStr ''a@b.c''), (''text'', JStr ''hello'')]))) = []"
  by (rule send_email_rejected_no_vendor_call
        [where f = "\<lparr> f_to = JStr ''a@b.c'', f_subject = JUndefined, f_text = JStr ''hello'',
                       f_html = JUndefined, f_fromEmail = JUndefined, f_fromName = JUndefined \<rparr>"])
     (simp_all add: destructure_def nullish_def missing_fields_def)

text \<open>
  C2, as stated: for a valid request the vendor client is called once, with the sender
  taken from the process configuration when the request names none. It fails where the
  configuration names no sender either: with \<^verbatim>\<open>FROM_EMAIL\<close> unset, the one message handed
  to the vendor client carries the built-in address, while the configured value is
  \<^verbatim>\<open>undefined\<close>.
\<close>

theorem send_email_sender_builtin_default:
  "vendor_sends (snd (send_email Map.empty (\<lambda>m. Inr (JArr [JObj [(''headers'', JObj [])]]))
      (JObj [(''to'', JStr ''a@b.c''), (''subject'', JStr ''Hi''), (''text'', JStr ''hello'')]))) =
     [JObj [(''to'', JStr ''a@b.c''),
            (''from'', JObj [(''email'', JStr ''anya.sunglassretailer@gmail.com''),
                             (''name'', JStr ''Anya Ganger'')]),
            (''subject'', JStr ''Hi''),
            (''text'', JStr ''hello''),
            (''html'', JStr ''hello''),
            (''trackingSettings'', JObj [(''clickTracking'', JObj [(''enable'', JBool True)]),
                                         (''openTracking'', JObj [(''enable'', JBool True)])])]]
   \<and> process_env Map.empty ''FROM_EMAIL'' = JUndefined
   \<and> process_env Map.empty ''FROM_NAME'' = JUndefined
   \<and> JStr ''anya.sunglassretailer@gmail.com'' \<noteq> process_env Map.empty ''FROM_EMAIL''
   \<and> JStr ''Anya Ganger'' \<noteq> process_env Map.empty ''FROM_NAME''"
  by (simp add: vendor_sends_send_email try_block_def destructure_def nullish_def missing_fields_def
        build_msg_def or_else_def process_env_def message_id_def get_def
        default_from_email_def default_from_name_def)

text \<open>
  C2, amended. For every request that passes the validation the vendor client is called
  exactly once. When the request has no \<^verbatim>\<open>fromEmail\<close>, the sender address of the message
  is the configured \<^verbatim>\<open>FROM_EMAIL\<close> if that is set and not empty, and the built-in address
  \<^verbatim>\<open>anya.sunglassretailer@gmail.com\<close> otherwise; likewise the sender name is the configured
  \<^verbatim>\<open>FROM_NAME\<close> or the built-in \<^verbatim>\<open>Anya Ganger\<close>. When the request has no \<^verbatim>\<open>html\<close>,
  the HTML body of the message is the text body.
\<close>

theorem send_email_invokes_vendor_once:
  assumes "destructure body = Inr f" and "\<not> missing_fields f"
  shows "\<exists>msg. vendor_sends (snd (send_email env sgMail_send body)) = [msg]
           \<and> (f_fromEmail f = JUndefined \<longrightarrow>
                own (own msg ''from'') ''email'' =
                  (case env ''FROM_EMAIL'' of
                     None \<Rightarrow> JStr ''anya.sunglassretailer@gmail.com''
                   | Some e \<Rightarrow> if e = [] then JStr ''anya.sunglassretailer@gmail.com'' else JStr e))
           \<and> (f_fromName f = JUndefined \<longrightarrow>
                own (own msg ''from'') ''name'' =
                  (case env ''FROM_NAME'' of
                     None \<Rightarrow> JStr ''Anya Ganger''
                   | Some n \<Rightarrow> if n = [] then JStr ''Anya Ganger'' else JStr n))
           \<and> (f_html f = JUndefined \<longrightarrow> own msg ''html'' = f_text f \<and> own msg ''text'' = f_text f)"
proof -
  have "vendor_sends (snd (send_email env sgMail_send body)) = [build_msg env f]"
    using assms by (simp add: vendor_sends_send_email vendor_sends_try_block)
  moreover have "f_fromEmail f = JUndefined \<longrightarrow>
      own (own (build_msg env f) ''from'') ''email'' =
        (case env ''FROM_EMAIL'' of
           None \<Rightarrow> JStr ''anya.sunglassretailer@gmail.com''
         | Some e \<Rightarrow> if e = [] then JStr ''anya.sunglassretailer@gmail.com'' else JStr e)"
    by (simp add: build_msg_def or_else_def process_env_def default_from_email_def
          split: option.splits)
  moreover have "f_fromName f = JUndefined \<longrightarrow>
      own (own (build_msg env f) ''from'') ''name'' =
        (case env ''FROM_NAME'' of
           None \<Rightarrow> JStr ''Anya Ganger''
         | Some n \<Rightarrow> if n = [] then JStr ''Anya Ganger'' else JStr n)"
    by (simp add: build_msg_def or_else_def process_env_def default_from_name_def
          split: option.splits)
  moreover have "f_html f = JUndefined \<longrightarrow>
      own (build_msg env f) ''html'' = f_text f \<and> own (build_msg env f) ''text'' = f_text f"
    by (simp add: build_msg_def or_else_def)
  ultimately show ?thesis
    by blast
qed

theorem send_email_invokes_vendor_once_witness:
  "\<exists>msg. vendor_sends (snd (send_email [''FROM_EMAIL'' \<mapsto> ''shop@example.com'', ''FROM_NAME'' \<mapsto> ''Shop'']
             (\<lambda>m. Inr (JArr [JObj [(''headers'', JObj [])]]))
             (JObj [(''to'', JStr ''a@b.c''), (''subject'', JStr ''Hi''), (''text'', JStr ''hello'')]))) = [msg]
     \<and> own (own msg ''from'') ''email'' = JStr ''shop@example.com''
     \<and> own (own msg ''from'') ''name'' = JStr ''Shop''
     \<and> own msg ''html'' = JStr ''hello''
     \<and> own msg ''text'' = JStr ''hello''"
  using send_email_invokes_vendor_once
        [where f = "\<lparr> f_to = JStr ''a@b.c'', f_subject = JStr ''Hi'', f_text = JStr ''hello'',
                       f_html = JUndefined, f_fromEmail = JUndefined, f_fromName = JUndefined \<rparr>"
           and body = "JObj [(''to'', JStr ''a@b.c''), (''subject'', JStr ''Hi''), (''text'', JStr ''hello'')]"
           and env = "[''FROM_EMAIL'' \<mapsto> ''shop@example.com'', ''FROM_NAME'' \<mapsto> ''Shop'']"
           and sgMail_send = "\<lambda>m. Inr (JArr [JObj [(''headers'', JObj [])]])"]
  by (simp add: destructure_def nullish_def missing_fields_def)

text \<open>
  C4. When the request passes the validation and the vendor client resolves with its
  response, an array whose first element carries the headers of the vendor's answer, the
  handler answers with status 200 and a body with \<^verbatim>\<open>success: true\<close> and, as
  \<^verbatim>\<open>messageId\<close>, the header \<^verbatim>\<open>x-message-id\<close> of that first element
  (\<^verbatim>\<open>response[0].headers['x-message-id']\<close>; undefined when the vendor sent no such header).
\<close>

theorem send_email_success_200:
  assumes "destructure body = Inr f" and "\<not> missing_fields f"
    and "sgMail_send (build_msg env f) = Inr (JArr (JObj res # rest))"
    and "map_of res ''headers'' = Some (JObj headers)"
  shows "fst (send_email env sgMail_send body) =
           Inr \<lparr> status = JNum 200,
                 reply = Json (JObj [(''success'', JBool True),
                                     (''messageId'',
                                      (case map_of headers ''x-message-id'' of
                                         None \<Rightarrow> JUndefined
                                       | Some mid \<Rightarrow> mid)),
                                     (''message'', JStr ''Email sent successfully'')]) \<rparr>"
  using assms
  by (simp add: send_email_def try_block_def Let_def message_id_def get_def nullish_def)

theorem send_email_success_200_witness:
  "fst (send_email Map.empty
          (\<lambda>m. Inr (JArr [JObj [(''statusCode'', JNum 202),
                                  (''headers'', JObj [(''x-message-id'', JStr ''abc123'')])],
                            JObj []]))
          (JObj [(''to'', JStr ''a@b.c''), (''subject'', JStr ''Hi''), (''text'', JStr ''hello'')])) =
     Inr \<lparr> status = JNum 200,
           reply = Json (JObj [(''success'', JBool True), (''messageId'', JStr ''abc123''),
                               (''message'', JStr ''Email sent successfully'')]) \<rparr>"
  using send_email_success_200
        [where f = "\<lparr> f_to = JStr ''a@b.c'', f_subject = JStr ''Hi'', f_text = JStr ''hello'',
                       f_html = JUndefined, f_fromEmail = JUndefined, f_fromName = JUndefined \<rparr>"
           and body = "JObj [(''to'', JStr ''a@b.c''), (''subject'', JStr ''Hi''), (''text'', JStr ''hello'')]"
           and env = Map.empty
           and sgMail_send = "\<lambda>m. Inr (JArr [JObj [(''statusCode'', JNum 202),
                                  (''headers'', JObj [(''x-message-id'', JStr ''abc123'')])],
                            JObj []])"
           and res = "[(''statusCode'', JNum 202),
                       (''headers'', JObj [(''x-message-id'', JStr ''abc123'')])]"
           and rest = "[JObj []]"
           and headers = "[(''x-message-id'', JStr ''abc123'')]"]
  by (simp add: destructure_def nullish_def missing_fields_def)

text \<open>
  C3, as stated: when the vendor client throws an error that carries a response body, the
  \<^verbatim>\<open>details\<close> of the answer are the vendor's error list. It fails for an error whose
  response body has no error list (here an empty object): line 88 falls back to the
  message of the error, and the \<^verbatim>\<open>details\<close> are the string \<^verbatim>\<open>Unauthorized\<close>.
\<close>

theorem send_email_vendor_error_without_list:
  "own (own (own (JObj [(''code'', JNum 401), (''message'', JStr ''Unauthorized''),
                        (''response'', JObj [(''headers'', JObj []), (''body'', JObj [])])])
               ''response'') ''body'') ''errors'' = JUndefined
   \<and> fst (send_email Map.empty
          (\<lambda>m. Inl (JObj [(''code'', JNum 401), (''message'', JStr ''Unauthorized''),
                            (''response'', JObj [(''headers'', JObj []), (''body'', JObj [])])]))
          (JObj [(''to'', JStr ''a@b.c''), (''subject'', JStr ''Hi''), (''text'', JStr ''hello'')])) =
       Inr \<lparr> status = JNum 401,
             reply = Json (JObj [(''error'', JStr ''SendGrid API error''),
                                 (''details'', JStr ''Unauthorized'')]) \<rparr>"
  by (simp add: send_email_def try_block_def destructure_def missing_fields_def catch_block_def
        get_def nullish_def or_else_def)

text \<open>
  C3, amended. When the request passes the validation and the vendor client throws an
  error that carries a response body (\<^verbatim>\<open>error.response.body\<close> is neither undefined nor
  null), the handler answers with the error's \<^verbatim>\<open>code\<close> as status, or with 500 when the
  error has no \<^verbatim>\<open>code\<close> (\<^verbatim>\<open>error.code || 500\<close>: a code that is absent or falsy), and
  with \<^verbatim>\<open>details\<close> equal to the error list of the response body when the body has one
  (a truthy \<^verbatim>\<open>errors\<close>) and to the message of the error otherwise.
\<close>

theorem send_email_vendor_api_error:
  assumes "destructure body = Inr f" and "\<not> missing_fields f"
    and "sgMail_send (build_msg env f) = Inl error"
    and "\<not> nullish (own (own error ''response'') ''body'')"
  shows "fst (send_email env sgMail_send body) =
           Inr \<lparr> status = (if truthy (own error ''code'') then own error ''code'' else JNum 500),
                 reply = Json (JObj
                   [(''error'', JStr ''SendGrid API error''),
                    (''details'',
                     (if truthy (own (own (own error ''response'') ''body'') ''errors'')
                      then own (own (own error ''response'') ''body'') ''errors''
                      else own error ''message''))]) \<rparr>"
proof -
  from assms(4) have "own (own error ''response'') ''body'' \<noteq> JUndefined"
    by (auto simp: nullish_def)
  then have r: "truthy (own error ''response'')"
    by (rule own_truthy)
  then have r': "\<not> nullish (own error ''response'')"
    by (rule truthy_not_nullish)
  from r have "own error ''response'' \<noteq> JUndefined"
    by auto
  then have e: "\<not> nullish error"
    by (rule own_not_nullish)
  have "send_email env sgMail_send body = catch_block error [VendorSend (build_msg env f)]"
    using assms(1-3) by (rule send_email_vendor_throws)
  with assms(4) r r' e show ?thesis
    by (simp add: catch_block_def get_def or_else_def)
qed

theorem send_email_vendor_api_error_witness:
  "fst (send_email Map.empty
          (\<lambda>m. Inl (JObj [(''code'', JNum 403), (''message'', JStr ''Forbidden''),
                            (''response'', JObj [(''headers'', JObj []),
                               (''body'', JObj [(''errors'',
                                  JArr [JObj [(''message'', JStr ''not verified''),
                                              (''field'', JStr ''from.email'')]])])])]))
          (JObj [(''to'', JStr ''a@b.c''), (''subject'', JStr ''Hi''), (''text'', JStr ''hello'')])) =
     Inr \<lparr> status = JNum 403,
           reply = Json (JObj [(''error'', JStr ''SendGrid API error''),
                               (''details'', JArr [JObj [(''message'', JStr ''not verified''),
                                                         (''field'', JStr ''from.email'')]])]) \<rparr>"
  using send_email_vendor_api_error
        [where f = "\<lparr> f_to = JStr ''a@b.c'', f_subject = JStr ''Hi'', f_text = JStr ''hello'',
                       f_html = JUndefined, f_fromEmail = JUndefined, f_fromName = JUndefined \<rparr>"
           and body = "JObj [(''to'', JStr ''a@b.c''), (''subject'', JStr ''Hi''), (''text'', JStr ''hello'')]"
           and env = Map.empty
           and error = "JObj [(''code'', JNum 403), (''message'', JStr ''Forbidden''),
                            (''response'', JObj [(''headers'', JObj []),
                               (''body'', JObj [(''errors'',
                                  JArr [JObj [(''message'', JStr ''not verified''),
                                              (''field'', JStr ''from.email'')]])])])]"
           and sgMail_send = "\<lambda>m. Inl (JObj [(''code'', JNum 403), (''message'', JStr ''Forbidden''),
                            (''response'', JObj [(''headers'', JObj []),
                               (''body'', JObj [(''errors'',
                                  JArr [JObj [(''message'', JStr ''not verified''),
                                              (''field'', JStr ''from.email'')]])])])])"]
  by (simp add: destructure_def nullish_def missing_fields_def)

text \<open>
  C6. When the request passes the validation and the vendor client throws an error object
  that carries no \<^verbatim>\<open>response\<close>, the handler answers with status 500, the error
  \<^verbatim>\<open>Server error\<close> and the thrown error's \<^verbatim>\<open>message\<close> as \<^verbatim>\<open>details\<close>.
\<close>

theorem send_email_plain_error_500:
  assumes "destructure body = Inr f" and "\<not> missing_fields f"
    and "sgMail_send (build_msg env f) = Inl error"
    and "\<not> nullish error" and "own error ''response'' = JUndefined"
  shows "fst (send_email env sgMail_send body) =
           Inr \<lparr> status = JNum 500,
                 reply = Json (JObj [(''error'', JStr ''Server error''),
                                     (''details'', own error ''message'')]) \<rparr>"
proof -
  have "send_email env sgMail_send body = catch_block error [VendorSend (build_msg env f)]"
    using assms(1-3) by (rule send_email_vendor_throws)
  with assms(4,5) show ?thesis
    by (simp add: catch_block_def get_def nullish_def)
qed

theorem send_email_plain_error_500_witness:
  "fst (send_email Map.empty
          (\<lambda>m. Inl (JObj [(''message'', JStr ''socket hang up'')]))
          (JObj [(''to'', JStr ''a@b.c''), (''subject'', JStr ''Hi''), (''html'', JStr ''<b>hello</b>'')])) =
     Inr \<lparr> status = JNum 500,
           reply = Json (JObj [(''error'', JStr ''Server error''),
                               (''details'', JStr ''socket hang up'')]) \<rparr>"
  using send_email_plain_error_500
        [where f = "\<lparr> f_to = JStr ''a@b.c'', f_subject = JStr ''Hi'', f_text = JUndefined,
                       f_html = JStr ''<b>hello</b>'', f_fromEmail = JUndefined, f_fromName = JUndefined \<rparr>"
           and body = "JObj [(''to'', JStr ''a@b.c''), (''subject'', JStr ''Hi''), (''html'', JStr ''<b>hello</b>'')]"
           and env = Map.empty
           and error = "JObj [(''message'', JStr ''socket hang up'')]"
           and sgMail_send = "\<lambda>m. Inl (JObj [(''message'', JStr ''socket hang up'')])"]
  by (simp add: destructure_def nullish_def missing_fields_def)

section \<open>Properties of the health handler\<close>

text \<open>
  C8. The health handler answers every request with status 200 and the body
  \<^verbatim>\<open>{status: 'OK', message: 'Backend is running'}\<close>; it reads nothing of the request
  and no state, and has no effect.
\<close>

theorem health_ok:
  "health req =
     (Inr \<lparr> status = JNum 200,
            reply = Json (JObj [(''status'', JStr ''OK''),
                                (''message'', JStr ''Backend is running'')]) \<rparr>, [])"
  by (simp add: health_def)

section \<open>Properties of the webhook handler\<close>

text \<open>What \<^verbatim>\<open>JSON.parse\<close> makes of some texts.\<close>

lemma JSON_parse_accepts:
  \<open>JSON_parse '' {"a": [1, -2.5e1, 0.25, true, false, null, "x"], "b": {}, "a": "last"} '' =
     Inr (JObj [(''a'', JStr ''last''), (''b'', JObj [])])
   \<and> JSON_parse ''[[], {"k": [0]}, 1E2]'' = Inr (JArr [JArr [], JObj [(''k'', JArr [JNum 0])], JNum 100])
   \<and> JSON_parse ''null'' = Inr JNull\<close>
  by code_simp

lemma JSON_parse_rejects:
  \<open>JSON_parse [] = Inl (SyntaxError ''Unexpected token in JSON'')
   \<and> JSON_parse ''[1,]'' = Inl (SyntaxError ''Unexpected token in JSON'')
   \<and> JSON_parse ''{"a" 1}'' = Inl (SyntaxError ''Unexpected token in JSON'')
   \<and> JSON_parse ''[01]'' = Inl (SyntaxError ''Unexpected token in JSON'')
   \<and> JSON_parse ''"open'' = Inl (SyntaxError ''Unexpected token in JSON'')
   \<and> JSON_parse ''[] []'' = Inl (SyntaxError ''Unexpected token in JSON'')\<close>
  by code_simp

lemma forEach_event_ok:
  assumes "\<forall>e\<in>set evs. \<not> nullish e"
  shows "fst (forEach_event evs fx) = None"
  using assms
  by (induction evs arbitrary: fx) (simp_all add: log_event_def get_def)

text \<open>
  What the handler is written for: given the bytes of the request in a Buffer, a body that
  is a JSON array without a null element is acknowledged with status 200 and \<^verbatim>\<open>OK\<close>.
\<close>

lemma webhook_text_ok:
  assumes "JSON_parse body_text = Inr (JArr evs)" and "\<forall>e\<in>set evs. \<not> nullish e"
  shows "fst (webhook_text body_text) = Inr \<lparr> status = JNum 200, reply = Send ''OK'' \<rparr>"
proof -
  obtain r fx where f: "forEach_event evs [] = (r, fx)"
    by (cases "forEach_event evs []")
  with forEach_event_ok [OF assms(2), of "[]"] have "r = None"
    by simp
  with f assms(1) show ?thesis
    by (simp add: webhook_text_def)
qed

lemma webhook_Buffer: "webhook num_text (Buffer bytes) = webhook_text bytes"
  by (simp add: webhook_def body_toString_def)

lemma webhook_Buffer_ok:
  \<open>fst (webhook num_text (Buffer ''[{"email":"a@b.c","event":"delivered","timestamp":1700000000,"sg_message_id":"m1"}]'')) =
     Inr \<lparr> status = JNum 200, reply = Send ''OK'' \<rparr>\<close>
  unfolding webhook_Buffer by code_simp

text \<open>
  What the handler gets instead: the body as \<^verbatim>\<open>express.json()\<close> has parsed it. The text
  of a batch of events, an array that starts with an object, starts with
  \<^verbatim>\<open>[object Object]\<close>, which is not JSON; so is the text of a parsed object, and the
  empty text of the empty array.
\<close>

lemma lex_object_Object: "lex (CHR ''['' # CHR ''o'' # cs) = None"
  by (simp add: next_token_def is_ws_def is_digit_def)

lemma join_text_object:
  assumes "map_of ps ''toString'' = None"
  shows "join_text num_text (JObj ps # evs) = Inr t \<Longrightarrow> \<exists>cs. t = CHR ''['' # CHR ''o'' # cs"
  using assms by (cases evs) (auto simp: nullish_def split: sum.splits)

lemma webhook_parsed_batch:
  "fst (webhook num_text (Parsed (JArr (JObj ps # evs)))) \<noteq>
     Inr \<lparr> status = JNum 200, reply = Send ''OK'' \<rparr>"
proof (cases "join_text num_text (JObj ps # evs)")
  case (Inl e)
  then show ?thesis
    by (simp add: webhook_def body_toString_def get_def nullish_def)
next
  case (Inr t)
  show ?thesis
  proof (cases "map_of ps ''toString'' = None")
    case True
    with Inr obtain cs where "t = CHR ''['' # CHR ''o'' # cs"
      using join_text_object by blast
    then have "JSON_parse t = Inl (SyntaxError ''Unexpected token in JSON'')"
      by (simp add: JSON_parse_def lex_object_Object del: lex.simps)
    with Inr show ?thesis
      by (simp add: webhook_def body_toString_def get_def nullish_def webhook_text_def)
  next
    case False
    then have "join_text num_text (JObj ps # evs) \<noteq> Inr t"
      by (cases evs) (auto simp: nullish_def)
    with Inr show ?thesis
      by simp
  qed
qed

text \<open>
  C5. The claim: every request to the route is answered with status 200 and \<^verbatim>\<open>OK\<close>.
  The handler does not do so for the requests the route is there for. The body of a batch of
  events, sent with a JSON content type, is parsed by \<^verbatim>\<open>express.json()\<close> (the first
  equation: the value it leaves in \<^verbatim>\<open>req.body\<close>); the handler turns that value into
  the text \<^verbatim>\<open>[object Object]\<close>, \<^verbatim>\<open>JSON.parse\<close> throws a SyntaxError, nothing catches
  it, and \<^verbatim>\<open>res.status(200).send('OK')\<close> is not reached. The same happens with the
  empty array, and with the empty object that is the body of a request the JSON parser
  did not read.
\<close>

theorem webhook_parsed_body_throws:
  \<open>JSON_parse ''[{"email":"a@b.c","event":"delivered","timestamp":1700000000,"sg_message_id":"m1"}]'' =
     Inr (JArr [JObj [(''email'', JStr ''a@b.c''), (''event'', JStr ''delivered''),
                      (''timestamp'', JNum 1700000000), (''sg_message_id'', JStr ''m1'')]])
   \<and> body_toString num_text
         (Parsed (JArr [JObj [(''email'', JStr ''a@b.c''), (''event'', JStr ''delivered''),
                              (''timestamp'', JNum 1700000000), (''sg_message_id'', JStr ''m1'')]])) =
       Inr ''[object Object]''
   \<and> webhook num_text
         (Parsed (JArr [JObj [(''email'', JStr ''a@b.c''), (''event'', JStr ''delivered''),
                              (''timestamp'', JNum 1700000000), (''sg_message_id'', JStr ''m1'')]])) =
       (Inl (SyntaxError ''Unexpected token in JSON''), [])
   \<and> webhook num_text (Parsed (JArr [])) = (Inl (SyntaxError ''Unexpected token in JSON''), [])
   \<and> webhook num_text (Parsed (JObj [])) = (Inl (SyntaxError ''Unexpected token in JSON''), [])\<close>
  by code_simp

section \<open>Properties of the rate limit\<close>

lemma serve_counted:
  assumes "store s = Some (k, reset)"
    and "\<forall>rq\<in>set rqs. source rq = s \<and> arrival rq < reset"
  shows "serve env v store rqs =
           map (\<lambda>rq. Handled (send_email env v (req_body rq))) (take (max_requests - k) rqs)
           @ replicate (length rqs - (max_requests - k)) (Limited rate_limit_message)"
  using assms
proof (induction rqs arbitrary: store k)
  case Nil
  then show ?case by simp
next
  case (Cons rq rqs)
  let ?store = "increment store (source rq) (arrival rq)"
  have s: "?store s = Some (Suc k, reset)"
    using Cons.prems by (simp add: increment_def)
  have rest: "\<forall>rq\<in>set rqs. source rq = s \<and> arrival rq < reset"
    using Cons.prems by simp
  have ih: "serve env v ?store rqs =
           map (\<lambda>rq. Handled (send_email env v (req_body rq))) (take (max_requests - Suc k) rqs)
           @ replicate (length rqs - (max_requests - Suc k)) (Limited rate_limit_message)"
    using s rest by (rule Cons.IH)
  show ?case
  proof (cases "k < max_requests")
    case True
    then have "send_email_route env v store rq = (?store, Handled (send_email env v (req_body rq)))"
      using Cons.prems s by (simp add: send_email_route_def emailRateLimit_def hit_count_def Let_def)
    moreover have "max_requests - k = Suc (max_requests - Suc k)"
      using True by simp
    then have "take (max_requests - k) (rq # rqs) = rq # take (max_requests - Suc k) rqs"
      by simp
    moreover have "length (rq # rqs) - (max_requests - k) = length rqs - (max_requests - Suc k)"
      using True by simp
    ultimately show ?thesis
      using ih by simp
  next
    case False
    then have "send_email_route env v store rq = (?store, Limited rate_limit_message)"
      using Cons.prems s by (simp add: send_email_route_def emailRateLimit_def hit_count_def Let_def)
    then show ?thesis
      using ih False by (simp add: Suc_diff_le)
  qed
qed

text \<open>
  C7. Requests of one source to the route, all arriving before the window that the first of
  them opens has ended (15 minutes after it): the first 100 get the outcome of the handler,
  and every one from the 101st on gets the rate-limit message in its place.
\<close>

theorem rate_limit_window:
  assumes "case store (source first) of None \<Rightarrow> True | Some (n, reset) \<Rightarrow> reset \<le> arrival first"
    and "\<forall>rq\<in>set rqs. source rq = source first \<and> arrival rq < arrival first + windowMs"
  shows "serve env sgMail_send store (first # rqs) =
           map (\<lambda>rq. Handled (send_email env sgMail_send (req_body rq))) (take 100 (first # rqs))
           @ replicate (length (first # rqs) - 100)
               (Limited ''Too many email requests, please try again later.'')"
proof -
  let ?store = "increment store (source first) (arrival first)"
  have s: "?store (source first) = Some (1, arrival first + windowMs)"
    using assms(1) by (auto simp: increment_def split: option.splits)
  then have "send_email_route env sgMail_send store first =
               (?store, Handled (send_email env sgMail_send (req_body first)))"
    by (simp add: send_email_route_def emailRateLimit_def hit_count_def Let_def max_requests_def)
  moreover have "serve env sgMail_send ?store rqs =
           map (\<lambda>rq. Handled (send_email env sgMail_send (req_body rq))) (take (max_requests - 1) rqs)
           @ replicate (length rqs - (max_requests - 1)) (Limited rate_limit_message)"
    using s assms(2) by (rule serve_counted)
  ultimately show ?thesis
    by (simp add: max_requests_def rate_limit_message_def)
qed

theorem rate_limit_window_witness:
  "serve Map.empty (\<lambda>m. Inr (JArr [JObj [(''headers'', JObj [(''x-message-id'', JStr ''id'')])]])) Map.empty
     (\<lparr> source = ''10.0.0.1'', arrival = 0, req_body = JObj [(''to'', JStr ''a@b.c''), (''subject'', JStr ''Hi''), (''text'', JStr ''hello'')] \<rparr> #
      replicate 100 \<lparr> source = ''10.0.0.1'', arrival = 899999, req_body = JObj [(''to'', JStr ''a@b.c''), (''subject'', JStr ''Hi''), (''text'', JStr ''hello'')] \<rparr>) ! 100
   = Limited ''Too many email requests, please try again later.''
   \<and> serve Map.empty (\<lambda>m. Inr (JArr [JObj [(''headers'', JObj [(''x-message-id'', JStr ''id'')])]])) Map.empty
     (\<lparr> source = ''10.0.0.1'', arrival = 0, req_body = JObj [(''to'', JStr ''a@b.c''), (''subject'', JStr ''Hi''), (''text'', JStr ''hello'')] \<rparr> #
      replicate 100 \<lparr> source = ''10.0.0.1'', arrival = 899999, req_body = JObj [(''to'', JStr ''a@b.c''), (''subject'', JStr ''Hi''), (''text'', JStr ''hello'')] \<rparr>) ! 99
   = Handled (send_email Map.empty (\<lambda>m. Inr (JArr [JObj [(''headers'', JObj [(''x-message-id'', JStr ''id'')])]])) (JObj [(''to'', JStr ''a@b.c''), (''subject'', JStr ''Hi''), (''text'', JStr ''hello'')]))"
  using rate_limit_window
    [where store = Map.empty and env = Map.empty
       and sgMail_send = "\<lambda>m. Inr (JArr [JObj [(''headers'', JObj [(''x-message-id'', JStr ''id'')])]])"
       and first = "\<lparr> source = ''10.0.0.1'', arrival = 0, req_body = JObj [(''to'', JStr ''a@b.c''), (''subject'', JStr ''Hi''), (''text'', JStr ''hello'')] \<rparr>"
       and rqs = "replicate 100 \<lparr> source = ''10.0.0.1'', arrival = 899999, req_body = JObj [(''to'', JStr ''a@b.c''), (''subject'', JStr ''Hi''), (''text'', JStr ''hello'')] \<rparr>"]
  by (simp add: windowMs_def nth_append nth_Cons')

end
